theory Spec2Isabelle
  imports Complex_Main
begin

section \<open>Data model (app/models/schemas.py)\<close>

text \<open>
  The pydantic models of \<^verbatim>\<open>schemas.py\<close> as records. Python's unbounded \<^verbatim>\<open>int\<close> is
  \<^typ>\<open>int\<close>, \<^verbatim>\<open>str\<close> is \<^typ>\<open>string\<close>, \<^verbatim>\<open>Optional[str]\<close> is \<^typ>\<open>string option\<close>.
  The untyped \<^verbatim>\<open>list\<close> fields hold labels and are lists of strings. A Python \<^verbatim>\<open>float\<close>
  is modelled by the real number it denotes and float arithmetic by exact arithmetic.
\<close>

record SimplifiedAssessmentRequest =
  consent_given :: bool
  consent_data_processing :: bool
  consent_anonymous_analytics :: bool
  academic_year :: string
  attendance :: string
  overwhelm_frequency :: string
  study_hours :: string
  performance_satisfaction :: int
  advisor_interaction :: string
  support_network_strength :: int
  extracurricular_hours :: int
  employment_status :: string
  financial_stress :: string
  career_alignment :: int
  services_used :: "string list"
  withdrawal_considered :: bool
  withdrawal_reasons :: "string list"

record RiskFactor =
  category :: string
  factor :: string
  impact :: string
  description :: string

text \<open>The fields of \<^verbatim>\<open>Recommendation\<close> carry the prefix \<^verbatim>\<open>rec_\<close>: \<^verbatim>\<open>description\<close> is
  a field of \<^verbatim>\<open>RiskFactor\<close> already.\<close>

record Recommendation =
  rec_type :: string
  rec_title :: string
  rec_description :: string
  rec_urgency :: string
  rec_contact :: "string option"

record PredictionResponse =
  risk_level :: string
  risk_score :: int
  dropout_probability :: real
  predicted_class :: "string option"
  risk_factors :: "RiskFactor list"
  recommendations :: "Recommendation list"
  prediction_confidence :: real

text \<open>Exceptions are values. \<^verbatim>\<open>ValidationError\<close> is what pydantic raises when a field
  does not validate; any other exception carries its message.\<close>

datatype py_exception = ValidationError | OtherException string

text \<open>
  \<^verbatim>\<open>PredictionResponse(...)\<close> validates its arguments. The repository runs on pydantic 2
  (\<^verbatim>\<open>config.py\<close> imports \<^verbatim>\<open>pydantic_settings\<close>), where a number given for the field
  \<^verbatim>\<open>risk_score: int\<close> is accepted when it has no fractional part and raises
  \<^verbatim>\<open>ValidationError\<close> otherwise. The other arguments have the types of their fields at
  every call site.
\<close>

definition PredictionResponse_init ::
  "string \<Rightarrow> real \<Rightarrow> real \<Rightarrow> string option \<Rightarrow> RiskFactor list \<Rightarrow> Recommendation list \<Rightarrow> real
     \<Rightarrow> py_exception + PredictionResponse" where
  "PredictionResponse_init lvl score prob cls factors recs conf =
     (if of_int \<lfloor>score\<rfloor> = score
      then Inr \<lparr>risk_level = lvl, risk_score = \<lfloor>score\<rfloor>, dropout_probability = prob,
                predicted_class = cls, risk_factors = factors, recommendations = recs,
                prediction_confidence = conf\<rparr>
      else Inl ValidationError)"

section \<open>Python helpers\<close>

text \<open>\<^verbatim>\<open>d.get(k, default)\<close> on a dictionary literal, written as an association list.\<close>

definition dict_get :: "('k \<times> 'v) list \<Rightarrow> 'k \<Rightarrow> 'v \<Rightarrow> 'v" where
  "dict_get d k dflt = (case map_of d k of None \<Rightarrow> dflt | Some v \<Rightarrow> v)"

text \<open>\<^verbatim>\<open>int(x)\<close> on a float truncates towards zero.\<close>

definition py_int :: "real \<Rightarrow> int" where
  "py_int x = (if 0 \<le> x then \<lfloor>x\<rfloor> else \<lceil>x\<rceil>)"

text \<open>\<^verbatim>\<open>round(x)\<close> rounds to the nearest integer, a tie to the even one.\<close>

definition py_round :: "real \<Rightarrow> int" where
  "py_round x = (let f = \<lfloor>x\<rfloor>; d = x - of_int f in
     if d < 1/2 then f else if 1/2 < d then f + 1 else if even f then f else f + 1)"

text \<open>\<^verbatim>\<open>round(x, n)\<close> rounds to \<open>n\<close> decimals.\<close>

definition py_round_n :: "real \<Rightarrow> nat \<Rightarrow> real" where
  "py_round_n x n = of_int (py_round (x * 10 ^ n)) / 10 ^ n"

section \<open>Feature mapper (routers/prediction.py, map\_form\_to\_ml\_features)\<close>

definition attendance_to_units :: "(string \<times> int) list" where
  "attendance_to_units =
     [(''always'', 50), (''often'', 45), (''sometimes'', 30), (''rarely'', 15), (''never'', 5)]"

definition financial_stress_map :: "(string \<times> int) list" where
  "financial_stress_map =
     [(''none'', 1), (''low'', 1), (''moderate'', 0), (''high'', 0), (''very-high'', 0)]"

definition scholarship_scores :: "(string \<times> int) list" where
  "scholarship_scores =
     [(''none'', 1), (''low'', 1), (''moderate'', 0), (''high'', 0), (''very-high'', 0)]"

definition academic_year_map :: "(string \<times> int) list" where
  "academic_year_map = [(''1st'', 18), (''2nd'', 19), (''3rd'', 20), (''4th'', 21)]"

definition employment_age_adjustment :: "(string \<times> int) list" where
  "employment_age_adjustment = [(''not-employed'', 0), (''part-time'', 1), (''full-time'', 2)]"

definition debtor_map :: "(string \<times> int) list" where
  "debtor_map =
     [(''none'', 0), (''low'', 0), (''moderate'', 1), (''high'', 1), (''very-high'', 1)]"

text \<open>The branch on employment and career alignment that sets \<^verbatim>\<open>application_mode\<close>
  (lines 70 to 76), with its three arms as written.\<close>

definition application_mode :: "SimplifiedAssessmentRequest \<Rightarrow> int" where
  "application_mode d =
     (if employment_status d = ''full-time'' \<and> career_alignment d < 5 then 2
      else if 8 \<le> career_alignment d then 1
      else 1)"

text \<open>The feature vector, in the order of \<^verbatim>\<open>FEATURE_ORDER\<close>. The product
  \<^verbatim>\<open>units * (performance_satisfaction / 10.0)\<close> is taken exactly before \<^verbatim>\<open>int\<close>
  truncates it; the double product agrees with it for satisfaction values 0 to 10.\<close>

definition map_form_to_ml_features :: "SimplifiedAssessmentRequest \<Rightarrow> real list" where
  "map_form_to_ml_features d =
     (let curricular_2nd_sem = dict_get attendance_to_units (attendance d) 30;
          curricular_1st_sem = dict_get attendance_to_units (attendance d) 30;
          performance_factor = real_of_int (performance_satisfaction d) / 10;
          curricular_2nd_sem = py_int (real_of_int curricular_2nd_sem * performance_factor);
          curricular_1st_sem = py_int (real_of_int curricular_1st_sem * performance_factor);
          tuition_fees_up_to_date = dict_get financial_stress_map (financial_stress d) 0;
          scholarship_holder = dict_get scholarship_scores (financial_stress d) 0;
          age_base = dict_get academic_year_map (academic_year d) 19;
          age_at_enrollment =
            age_base + dict_get employment_age_adjustment (employment_status d) 0;
          debtor = dict_get debtor_map (financial_stress d) 0;
          gender = (if study_hours d \<in> set [''8+'', ''5-8''] then 0 else 1)
      in map real_of_int
           [curricular_2nd_sem, curricular_1st_sem, tuition_fees_up_to_date,
            scholarship_holder, age_at_enrollment, debtor, gender, application_mode d])"

section \<open>Heuristic scorer (calculate\_fallback\_risk, lines 91 to 149)\<close>

definition attendance_scores :: "(string \<times> int) list" where
  "attendance_scores =
     [(''always'', 0), (''often'', 5), (''sometimes'', 15), (''rarely'', 25), (''never'', 35)]"

definition overwhelm_scores :: "(string \<times> int) list" where
  "overwhelm_scores =
     [(''never'', 0), (''rarely'', 5), (''sometimes'', 10), (''often'', 20), (''always'', 30)]"

definition financial_scores :: "(string \<times> int) list" where
  "financial_scores =
     [(''none'', 0), (''low'', 5), (''moderate'', 10), (''high'', 20), (''very-high'', 25)]"

definition advisor_scores :: "(string \<times> int) list" where
  "advisor_scores =
     [(''never'', 10), (''once-semester'', 5), (''2-3-semester'', 2), (''monthly'', 0)]"

text \<open>The running sum \<^verbatim>\<open>risk_score\<close> before it is normalised (lines 91 to 138). It is
  an integer up to the career-alignment term, whose factor \<^verbatim>\<open>1.5\<close> makes it a float; sums
  of halves are exact in doubles.\<close>

definition fallback_risk_sum :: "SimplifiedAssessmentRequest \<Rightarrow> real" where
  "fallback_risk_sum d =
     (let risk_score = (0::int);
          risk_score = risk_score + dict_get attendance_scores (attendance d) 0;
          risk_score = risk_score + dict_get overwhelm_scores (overwhelm_frequency d) 0;
          risk_score = risk_score + dict_get financial_scores (financial_stress d) 0;
          risk_score = (if withdrawal_considered d then risk_score + 15 else risk_score);
          risk_score = risk_score + max 0 (10 - performance_satisfaction d) * 2;
          risk_score = risk_score + dict_get advisor_scores (advisor_interaction d) 0;
          risk_score = risk_score + max 0 (10 - support_network_strength d);
          risk_score = (if extracurricular_hours d < 1 \<or> 15 < extracurricular_hours d
                        then risk_score + 5 else risk_score);
          risk_score = real_of_int risk_score
                         + real_of_int (max 0 (10 - career_alignment d)) * 1.5;
          risk_score = (if employment_status d = ''full-time'' then risk_score + 10
                        else if employment_status d = ''part-time'' then risk_score + 5
                        else risk_score)
      in risk_score)"

text \<open>Line 141: \<^verbatim>\<open>risk_score = min(100, max(0, risk_score))\<close>.\<close>

definition fallback_risk_score :: "SimplifiedAssessmentRequest \<Rightarrow> real" where
  "fallback_risk_score d = min 100 (max 0 (fallback_risk_sum d))"

text \<open>Lines 144 to 149: the tier of a heuristic score.\<close>

definition score_risk_level :: "real \<Rightarrow> string" where
  "score_risk_level score =
     (if 60 \<le> score then ''high''
      else if 35 \<le> score then ''medium''
      else ''low'')"

text \<open>Lines 262 to 267 and 546 to 551: the tier of a model probability.\<close>

definition probability_risk_level :: "real \<Rightarrow> string" where
  "probability_risk_level p =
     (if 0.6 \<le> p then ''high''
      else if 0.35 \<le> p then ''medium''
      else ''low'')"

section \<open>Rule engine: the annotations\<close>

definition rf_low_class_attendance :: RiskFactor where
  "rf_low_class_attendance =
     \<lparr>category = ''Academic'', factor = ''Low Class Attendance'', impact = ''high'',
      description = ''Inconsistent class attendance is strongly correlated with dropout risk''\<rparr>"

definition rf_academic_overwhelm :: RiskFactor where
  "rf_academic_overwhelm =
     \<lparr>category = ''Mental Health'', factor = ''Academic Overwhelm'', impact = ''high'',
      description = ''Feeling frequently overwhelmed can lead to burnout and withdrawal''\<rparr>"

definition rf_financial_stress :: RiskFactor where
  "rf_financial_stress =
     \<lparr>category = ''Financial'', factor = ''Financial Stress'', impact = ''high'',
      description = ''Financial difficulties are a leading cause of student withdrawal''\<rparr>"

definition rf_withdrawal_consideration :: RiskFactor where
  "rf_withdrawal_consideration =
     \<lparr>category = ''Behavioral'', factor = ''Withdrawal Consideration'', impact = ''high'',
      description = ''Active consideration of withdrawal indicates elevated risk''\<rparr>"

definition rf_weak_support_network :: RiskFactor where
  "rf_weak_support_network =
     \<lparr>category = ''Social'', factor = ''Weak Support Network'', impact = ''medium'',
      description = ''Limited social support increases vulnerability during challenges''\<rparr>"

definition rf_full_time_employment :: RiskFactor where
  "rf_full_time_employment =
     \<lparr>category = ''Personal'', factor = ''Full-time Employment'', impact = ''medium'',
      description = ''Working full-time while studying significantly increases time pressure''\<rparr>"

definition rec_mental_health_support :: Recommendation where
  "rec_mental_health_support =
     \<lparr>rec_type = ''counseling'', rec_title = ''Mental Health Support'',
      rec_description = ''Schedule an urgent appointment with a counselor to discuss your concerns and develop a support plan'',
      rec_urgency = ''immediate'', rec_contact = Some ''counseling@rvce.edu.in''\<rparr>"

definition rec_financial_aid_office :: Recommendation where
  "rec_financial_aid_office =
     \<lparr>rec_type = ''financial'', rec_title = ''Financial Aid Office'',
      rec_description = ''Connect with financial aid office to explore scholarships, grants, and emergency funding options'',
      rec_urgency = ''soon'', rec_contact = Some ''financialaid@rvce.edu.in''\<rparr>"

definition rec_academic_tutoring :: Recommendation where
  "rec_academic_tutoring =
     \<lparr>rec_type = ''academic'', rec_title = ''Academic Tutoring'',
      rec_description = ''Access tutoring services and study groups to improve academic performance'',
      rec_urgency = ''soon'', rec_contact = Some ''tutoring@rvce.edu.in''\<rparr>"

definition rec_schedule_advisor_meeting :: Recommendation where
  "rec_schedule_advisor_meeting =
     \<lparr>rec_type = ''academic'', rec_title = ''Schedule Advisor Meeting'',
      rec_description = ''Regular meetings with your academic advisor can help with course planning and early problem detection'',
      rec_urgency = ''soon'', rec_contact = Some ''advising@rvce.edu.in''\<rparr>"

definition rec_time_management_support :: Recommendation where
  "rec_time_management_support =
     \<lparr>rec_type = ''peer'', rec_title = ''Time Management Support'',
      rec_description = ''Consider reducing work hours or exploring flexible work arrangements to prioritize your studies'',
      rec_urgency = ''soon'', rec_contact = None\<rparr>"

definition rec_explore_campus_support :: Recommendation where
  "rec_explore_campus_support =
     \<lparr>rec_type = ''support'', rec_title = ''Explore Campus Support Services'',
      rec_description = ''You haven't indicated using any support services yet. Visit the student center to learn about available resources including academic advising, counseling, and health services.'',
      rec_urgency = ''soon'', rec_contact = Some ''studentcenter@rvce.edu.in''\<rparr>"

definition rec_stay_connected :: Recommendation where
  "rec_stay_connected =
     \<lparr>rec_type = ''peer'', rec_title = ''Stay Connected'',
      rec_description = ''Continue engaging with campus resources and maintain your support network'',
      rec_urgency = ''when-needed'', rec_contact = None\<rparr>"

section \<open>Rule engine of the heuristic path (lines 151 to 230)\<close>

definition fallback_risk_factors :: "SimplifiedAssessmentRequest \<Rightarrow> RiskFactor list" where
  "fallback_risk_factors d =
     (let risk_factors = [];
          risk_factors = (if attendance d \<in> set [''rarely'', ''never'']
                          then risk_factors @ [rf_low_class_attendance] else risk_factors);
          risk_factors = (if overwhelm_frequency d \<in> set [''often'', ''always'']
                          then risk_factors @ [rf_academic_overwhelm] else risk_factors);
          risk_factors = (if financial_stress d \<in> set [''high'', ''very-high'']
                          then risk_factors @ [rf_financial_stress] else risk_factors);
          risk_factors = (if withdrawal_considered d
                          then risk_factors @ [rf_withdrawal_consideration] else risk_factors)
      in risk_factors)"

text \<open>The recommendations of lines 186 to 222, before the test for an empty list.\<close>

definition fallback_rule_recommendations ::
  "string \<Rightarrow> SimplifiedAssessmentRequest \<Rightarrow> Recommendation list" where
  "fallback_rule_recommendations lvl d =
     (let recommendations = [];
          recommendations = (if lvl = ''high''
                             then recommendations @ [rec_mental_health_support]
                             else recommendations);
          recommendations = (if financial_stress d \<in> set [''high'', ''very-high'']
                             then recommendations @ [rec_financial_aid_office]
                             else recommendations);
          recommendations = (if performance_satisfaction d \<le> 4
                             then recommendations @ [rec_academic_tutoring]
                             else recommendations);
          recommendations = (if services_used d = [] \<or> length (services_used d) = 0
                             then recommendations @ [rec_explore_campus_support]
                             else recommendations)
      in recommendations)"

text \<open>Lines 224 to 230: \<^verbatim>\<open>if not recommendations: recommendations.append(...)\<close>.\<close>

definition stay_connected_fallback :: "Recommendation list \<Rightarrow> Recommendation list" where
  "stay_connected_fallback recs =
     (if recs = [] then recs @ [rec_stay_connected] else recs)"

definition fallback_recommendations ::
  "string \<Rightarrow> SimplifiedAssessmentRequest \<Rightarrow> Recommendation list" where
  "fallback_recommendations lvl d =
     stay_connected_fallback (fallback_rule_recommendations lvl d)"

text \<open>The whole function: score, tier, annotations, and the response built from them
  (lines 232 to 239). The score handed to the response is the normalised sum itself.\<close>

definition calculate_fallback_risk ::
  "SimplifiedAssessmentRequest \<Rightarrow> py_exception + PredictionResponse" where
  "calculate_fallback_risk d =
     (let risk_score = fallback_risk_score d;
          lvl = score_risk_level risk_score
      in PredictionResponse_init lvl risk_score (risk_score / 100) None
           (fallback_risk_factors d) (fallback_recommendations lvl d) 0.75)"

section \<open>Rule engine of the model path (predict\_simplified, lines 269 to 481)\<close>

definition model_risk_factors :: "SimplifiedAssessmentRequest \<Rightarrow> RiskFactor list" where
  "model_risk_factors d =
     (let risk_factors = [];
          risk_factors = (if attendance d \<in> set [''rarely'', ''never'']
                          then risk_factors @ [rf_low_class_attendance] else risk_factors);
          risk_factors = (if overwhelm_frequency d \<in> set [''often'', ''always'']
                          then risk_factors @ [rf_academic_overwhelm] else risk_factors);
          risk_factors = (if financial_stress d \<in> set [''high'', ''very-high'']
                          then risk_factors @ [rf_financial_stress] else risk_factors);
          risk_factors = (if withdrawal_considered d
                          then risk_factors @ [rf_withdrawal_consideration] else risk_factors);
          risk_factors = (if support_network_strength d \<le> 3
                          then risk_factors @ [rf_weak_support_network] else risk_factors);
          risk_factors = (if employment_status d = ''full-time''
                          then risk_factors @ [rf_full_time_employment] else risk_factors)
      in risk_factors)"

definition model_rule_recommendations ::
  "string \<Rightarrow> SimplifiedAssessmentRequest \<Rightarrow> Recommendation list" where
  "model_rule_recommendations lvl d =
     (let recommendations = [];
          recommendations = (if lvl = ''high''
                             then recommendations @ [rec_mental_health_support]
                             else recommendations);
          recommendations = (if financial_stress d \<in> set [''high'', ''very-high'']
                             then recommendations @ [rec_financial_aid_office]
                             else recommendations);
          recommendations = (if performance_satisfaction d \<le> 4
                             then recommendations @ [rec_academic_tutoring]
                             else recommendations);
          recommendations = (if advisor_interaction d \<in> set [''never'', ''once-semester'']
                             then recommendations @ [rec_schedule_advisor_meeting]
                             else recommendations);
          recommendations = (if employment_status d = ''full-time''
                             then recommendations @ [rec_time_management_support]
                             else recommendations)
      in recommendations)"

text \<open>The dictionary \<^verbatim>\<open>withdrawal_reason_map\<close> (lines 367 to 458): each of its six keys
  has a recommendation and a risk factor.\<close>

record reason_entry =
  recommendation :: Recommendation
  risk_factor :: RiskFactor

definition withdrawal_reason_map :: "(string \<times> reason_entry) list" where
  "withdrawal_reason_map =
    [(''Academic difficulty'',
      \<lparr>recommendation =
         \<lparr>rec_type = ''academic'', rec_title = ''Academic Support Program'',
          rec_description = ''Enroll in our comprehensive academic support program with tutoring, study groups, and study skills workshops'',
          rec_urgency = ''immediate'', rec_contact = Some ''academicsupport@rvce.edu.in''\<rparr>,
       risk_factor =
         \<lparr>category = ''Academic'', factor = ''Academic Difficulty'', impact = ''high'',
          description = ''Struggling with academic material can lead to course failure and withdrawal''\<rparr>\<rparr>),
     (''Financial challenges'',
      \<lparr>recommendation =
         \<lparr>rec_type = ''financial'', rec_title = ''Emergency Financial Assistance'',
          rec_description = ''Apply for emergency grants or loans. Meet with financial counselor to create a sustainable plan'',
          rec_urgency = ''immediate'', rec_contact = Some ''financialaid@rvce.edu.in''\<rparr>,
       risk_factor =
         \<lparr>category = ''Financial'', factor = ''Financial Crisis'', impact = ''high'',
          description = ''Severe financial issues are a primary driver of student withdrawal''\<rparr>\<rparr>),
     (''Mental health'',
      \<lparr>recommendation =
         \<lparr>rec_type = ''counseling'', rec_title = ''Mental Health Crisis Support'',
          rec_description = ''Contact counseling center immediately. We also have peer support groups and crisis resources available'',
          rec_urgency = ''immediate'', rec_contact = Some ''counseling@rvce.edu.in''\<rparr>,
       risk_factor =
         \<lparr>category = ''Mental Health'', factor = ''Mental Health Crisis'', impact = ''high'',
          description = ''Mental health challenges require immediate professional support and intervention''\<rparr>\<rparr>),
     (''Personal/family issues'',
      \<lparr>recommendation =
         \<lparr>rec_type = ''support'', rec_title = ''Personal Counseling & Family Support'',
          rec_description = ''Our counselors can help you navigate personal and family challenges while maintaining your academic progress'',
          rec_urgency = ''soon'', rec_contact = Some ''counseling@rvce.edu.in''\<rparr>,
       risk_factor =
         \<lparr>category = ''Personal'', factor = ''Personal/Family Crisis'', impact = ''high'',
          description = ''Personal and family issues can significantly impact academic focus and commitment''\<rparr>\<rparr>),
     (''Lack of interest'',
      \<lparr>recommendation =
         \<lparr>rec_type = ''academic'', rec_title = ''Academic Advising & Program Exploration'',
          rec_description = ''Meet with academic advisor to explore program alternatives, course selections, or potential major changes'',
          rec_urgency = ''soon'', rec_contact = Some ''advising@rvce.edu.in''\<rparr>,
       risk_factor =
         \<lparr>category = ''Academic'', factor = ''Loss of Academic Interest'', impact = ''high'',
          description = ''Declining interest in studies suggests misalignment with chosen program or career path''\<rparr>\<rparr>),
     (''Career opportunities'',
      \<lparr>recommendation =
         \<lparr>rec_type = ''career'', rec_title = ''Career Planning & Education Strategy'',
          rec_description = ''Explore how to balance career opportunities with completing your degree. Many students pursue internships while studying'',
          rec_urgency = ''soon'', rec_contact = Some ''career@rvce.edu.in''\<rparr>,
       risk_factor =
         \<lparr>category = ''Career'', factor = ''Career Path Conflict'', impact = ''medium'',
          description = ''External career opportunities may be pulling focus away from academic commitments''\<rparr>\<rparr>)]"

text \<open>Lines 460 to 463: the loop over the reasons appends to both lists.\<close>

fun withdrawal_loop ::
  "string list \<Rightarrow> Recommendation list \<times> RiskFactor list
     \<Rightarrow> Recommendation list \<times> RiskFactor list" where
  "withdrawal_loop [] (recs, factors) = (recs, factors)"
| "withdrawal_loop (reason # rest) (recs, factors) =
     (case map_of withdrawal_reason_map reason of
        Some entry \<Rightarrow>
          withdrawal_loop rest (recs @ [recommendation entry], factors @ [risk_factor entry])
      | None \<Rightarrow> withdrawal_loop rest (recs, factors))"

text \<open>Lines 366 to 463: the guard and the loop.\<close>

definition withdrawal_enrichment ::
  "SimplifiedAssessmentRequest \<Rightarrow> Recommendation list \<times> RiskFactor list
     \<Rightarrow> Recommendation list \<times> RiskFactor list" where
  "withdrawal_enrichment d acc =
     (if withdrawal_considered d \<and> withdrawal_reasons d \<noteq> []
      then withdrawal_loop (withdrawal_reasons d) acc
      else acc)"

text \<open>Lines 465 to 473: the recommendation for a request that names no service.\<close>

definition services_rule ::
  "SimplifiedAssessmentRequest \<Rightarrow> Recommendation list \<Rightarrow> Recommendation list" where
  "services_rule d recs =
     (if services_used d = [] \<or> length (services_used d) = 0
      then recs @ [rec_explore_campus_support] else recs)"

text \<open>The two lists of the model path, for a tier \<open>lvl\<close>: the rules, the enrichment by
  withdrawal reasons, the services rule and the test for an empty list.\<close>

definition model_annotations ::
  "string \<Rightarrow> SimplifiedAssessmentRequest \<Rightarrow> Recommendation list \<times> RiskFactor list" where
  "model_annotations lvl d =
     (case withdrawal_enrichment d (model_rule_recommendations lvl d, model_risk_factors d) of
        (recs, factors) \<Rightarrow> (stay_connected_fallback (services_rule d recs), factors))"

section \<open>The model capability\<close>

text \<open>
  The module \<^verbatim>\<open>app/models/ml_model.py\<close> is not among the sources, so its object
  \<^verbatim>\<open>ml_model\<close> is a parameter of the entry points: a flag \<^verbatim>\<open>is_loaded\<close> and a method
  \<^verbatim>\<open>predict\<close> that returns a dictionary of three entries or \<^verbatim>\<open>None\<close>, or raises.
\<close>

record model_prediction =
  pred_dropout_probability :: real
  pred_predicted_class :: "string option"
  pred_model_confidence :: real

record ml_model =
  is_loaded :: bool
  predict :: "real list \<Rightarrow> py_exception + model_prediction option"

section \<open>The entry points (predict\_simplified, predict\_raw)\<close>

datatype error_detail =
  Prediction_failed py_exception
| ML_model_not_loaded
| Missing_feature_keys "string list"
| Model_prediction_failed

datatype HTTPException = HTTPException (status_code: int) (detail: error_detail)

text \<open>What \<^verbatim>\<open>print\<close> writes when a save fails.\<close>

datatype log_line = Database_save_failed py_exception

text \<open>
  The storage collaborator \<^verbatim>\<open>save_prediction(db, prediction, assessment_input, endpoint)\<close>
  works on a database session, which is outside this model: it is a parameter that takes
  the state of the database and returns the new state with either the identifier of the
  stored prediction or the exception it raised.
\<close>

type_synonym 'db save_prediction =
  "'db \<Rightarrow> PredictionResponse \<Rightarrow> SimplifiedAssessmentRequest option \<Rightarrow> string
     \<Rightarrow> (py_exception + int) \<times> 'db"

text \<open>The block \<^verbatim>\<open>try: await save_prediction(...) except Exception as db_error: print(...)\<close>
  followed by \<^verbatim>\<open>return result\<close>, which stands three times in the source.\<close>

definition save_then_return ::
  "'db save_prediction \<Rightarrow> 'db \<Rightarrow> PredictionResponse \<Rightarrow> SimplifiedAssessmentRequest option
     \<Rightarrow> string \<Rightarrow> (HTTPException + PredictionResponse) \<times> 'db \<times> log_line list" where
  "save_then_return save db result assessment_input endpoint =
     (case save db result assessment_input endpoint of
        (Inl db_error, db') \<Rightarrow> (Inr result, db', [Database_save_failed db_error])
      | (Inr prediction_id, db') \<Rightarrow> (Inr result, db', []))"

text \<open>Lines 256 to 491: the response of the model path for a prediction \<open>pred\<close>.\<close>

definition model_response ::
  "SimplifiedAssessmentRequest \<Rightarrow> model_prediction \<Rightarrow> py_exception + PredictionResponse" where
  "model_response d pred =
     (let p = pred_dropout_probability pred;
          score = py_round (p * 100);
          lvl = probability_risk_level p
      in case model_annotations lvl d of
           (recs, factors) \<Rightarrow>
             PredictionResponse_init lvl (real_of_int score) p (pred_predicted_class pred)
               factors recs (pred_model_confidence pred))"

text \<open>The outer \<^verbatim>\<open>except Exception as e: raise HTTPException(status_code=500, ...)\<close>.\<close>

definition internal_failure ::
  "py_exception \<Rightarrow> 'db \<Rightarrow> (HTTPException + PredictionResponse) \<times> 'db \<times> log_line list" where
  "internal_failure e db = (Inl (HTTPException 500 (Prediction_failed e)), db, [])"

text \<open>Lines 501 to 510: the heuristic path of \<^verbatim>\<open>predict_simplified\<close>.\<close>

definition fallback_path ::
  "'db save_prediction \<Rightarrow> SimplifiedAssessmentRequest \<Rightarrow> 'db
     \<Rightarrow> (HTTPException + PredictionResponse) \<times> 'db \<times> log_line list" where
  "fallback_path save d db =
     (case calculate_fallback_risk d of
        Inl e \<Rightarrow> internal_failure e db
      | Inr result \<Rightarrow> save_then_return save db result (Some d) ''simplified'')"

definition predict_simplified ::
  "ml_model \<Rightarrow> 'db save_prediction \<Rightarrow> SimplifiedAssessmentRequest \<Rightarrow> 'db
     \<Rightarrow> (HTTPException + PredictionResponse) \<times> 'db \<times> log_line list" where
  "predict_simplified ml save d db =
     (let ml_features = map_form_to_ml_features d
      in if is_loaded ml
         then (case predict ml ml_features of
                 Inl e \<Rightarrow> internal_failure e db
               | Inr (Some pred) \<Rightarrow>
                   (case model_response d pred of
                      Inl e \<Rightarrow> internal_failure e db
                    | Inr result \<Rightarrow> save_then_return save db result (Some d) ''simplified'')
               | Inr None \<Rightarrow> fallback_path save d db)
         else fallback_path save d db)"

definition FEATURE_ORDER :: "string list" where
  "FEATURE_ORDER =
     [''Curricular units 2nd sem (approved)'',
      ''Curricular units 1st sem (approved)'',
      ''Tuition fees up to date'',
      ''Scholarship holder'',
      ''Age at enrollment'',
      ''Debtor'',
      ''Gender'',
      ''Application mode'']"

text \<open>Lines 540 to 562: the response of the raw path.\<close>

definition raw_response :: "model_prediction \<Rightarrow> py_exception + PredictionResponse" where
  "raw_response pred =
     (let p = pred_dropout_probability pred;
          score = py_round (p * 100);
          lvl = probability_risk_level p
      in PredictionResponse_init lvl (real_of_int score) p (pred_predicted_class pred)
           [] [] (pred_model_confidence pred))"

text \<open>\<^verbatim>\<open>predict_raw\<close>: the request carries a dictionary from feature names to numbers. An
  \<^verbatim>\<open>HTTPException\<close> raised inside is passed on as it is, any other exception becomes
  status 500.\<close>

definition predict_raw ::
  "ml_model \<Rightarrow> 'db save_prediction \<Rightarrow> (string \<rightharpoonup> real) \<Rightarrow> 'db
     \<Rightarrow> (HTTPException + PredictionResponse) \<times> 'db \<times> log_line list" where
  "predict_raw ml save features_dict db =
     (if \<not> is_loaded ml then (Inl (HTTPException 503 ML_model_not_loaded), db, [])
      else let missing = filter (\<lambda>f. features_dict f = None) FEATURE_ORDER
           in if missing \<noteq> [] then (Inl (HTTPException 400 (Missing_feature_keys missing)), db, [])
              else let feature_vector = map (\<lambda>f. the (features_dict f)) FEATURE_ORDER
                   in case predict ml feature_vector of
                        Inl e \<Rightarrow> internal_failure e db
                      | Inr None \<Rightarrow> (Inl (HTTPException 500 Model_prediction_failed), db, [])
                      | Inr (Some pred) \<Rightarrow>
                          (case raw_response pred of
                             Inl e \<Rightarrow> internal_failure e db
                           | Inr result \<Rightarrow> save_then_return save db result None ''raw''))"

section \<open>The record store (app/database.py)\<close>

text \<open>
  The tables \<^verbatim>\<open>predictions\<close> and \<^verbatim>\<open>risk_factors\<close> as lists of rows; the fields carry
  the prefixes \<^verbatim>\<open>p_\<close> and \<^verbatim>\<open>rf_\<close>. A \<^verbatim>\<open>datetime\<close> is a number of microseconds.
\<close>

type_synonym datetime = int

record Prediction_row =
  p_id :: int
  p_created_at :: datetime
  p_risk_level :: string
  p_risk_score :: int
  p_dropout_probability :: real
  p_predicted_class :: "string option"
  p_prediction_confidence :: real
  p_endpoint :: string

record RiskFactor_row =
  rf_id :: int
  rf_prediction_id :: int
  rf_category :: string
  rf_factor :: string
  rf_impact :: string
  rf_description :: string

record database =
  tbl_predictions :: "Prediction_row list"
  tbl_risk_factors :: "RiskFactor_row list"

text \<open>The SQL aggregates: \<^verbatim>\<open>COUNT\<close> of no row is 0, \<^verbatim>\<open>SUM\<close> and \<^verbatim>\<open>AVG\<close> of no row
  are \<^verbatim>\<open>NULL\<close>, which Python reads as \<^verbatim>\<open>None\<close>.\<close>

definition sql_count :: "'a list \<Rightarrow> int" where
  "sql_count rows = int (length rows)"

definition sql_sum :: "int list \<Rightarrow> int option" where
  "sql_sum xs = (if xs = [] then None else Some (sum_list xs))"

definition sql_avg :: "int list \<Rightarrow> real option" where
  "sql_avg xs =
     (if xs = [] then None else Some (real_of_int (sum_list xs) / real (length xs)))"


text \<open>\<^verbatim>\<open>x or 0\<close> for a number that may be \<^verbatim>\<open>None\<close>.\<close>

definition or_zero :: "'a::zero option \<Rightarrow> 'a" where
  "or_zero x = (case x of None \<Rightarrow> 0 | Some v \<Rightarrow> if v = 0 then 0 else v)"

section \<open>Dashboard statistics (repositories/prediction\_repository.py, get\_dashboard\_stats)\<close>

record stats_row =
  total :: int
  high_count :: "int option"
  medium_count :: "int option"
  low_count :: "int option"
  avg_score :: "real option"

text \<open>The query of lines 98 to 104 and its single result row.\<close>

definition dashboard_query :: "database \<Rightarrow> stats_row" where
  "dashboard_query db =
     (let ps = tbl_predictions db
      in \<lparr>total = sql_count ps,
          high_count = sql_sum (map (\<lambda>p. if p_risk_level p = ''high'' then 1 else 0) ps),
          medium_count = sql_sum (map (\<lambda>p. if p_risk_level p = ''medium'' then 1 else 0) ps),
          low_count = sql_sum (map (\<lambda>p. if p_risk_level p = ''low'' then 1 else 0) ps),
          avg_score = sql_avg (map p_risk_score ps)\<rparr>)"

record dashboard_stats =
  total_assessments :: int
  high_risk_count :: int
  medium_risk_count :: int
  low_risk_count :: int
  high_risk_percentage :: real
  medium_risk_percentage :: real
  low_risk_percentage :: real
  average_risk_score :: real

definition get_dashboard_stats :: "database \<Rightarrow> dashboard_stats" where
  "get_dashboard_stats db =
     (let row = dashboard_query db;
          total = or_zero (Some (total row));
          high = or_zero (high_count row);
          medium = or_zero (medium_count row);
          low = or_zero (low_count row)
      in \<lparr>total_assessments = total,
          high_risk_count = high,
          medium_risk_count = medium,
          low_risk_count = low,
          high_risk_percentage =
            py_round_n (if 0 < total then real_of_int high / real_of_int total * 100 else 0) 2,
          medium_risk_percentage =
            py_round_n (if 0 < total then real_of_int medium / real_of_int total * 100 else 0) 2,
          low_risk_percentage =
            py_round_n (if 0 < total then real_of_int low / real_of_int total * 100 else 0) 2,
          average_risk_score = py_round_n (or_zero (avg_score row)) 1\<rparr>)"

section \<open>Top risk factors (get\_top\_risk\_factors, calculate\_trend)\<close>








section \<open>Concrete inputs\<close>

text \<open>A request on which no rule fires and every contribution to the heuristic score is 0.\<close>

definition request_calm :: SimplifiedAssessmentRequest where
  "request_calm =
     \<lparr>consent_given = True, consent_data_processing = True, consent_anonymous_analytics = True,
      academic_year = ''1st'', attendance = ''always'', overwhelm_frequency = ''never'',
      study_hours = ''1-3'', performance_satisfaction = 10, advisor_interaction = ''monthly'',
      support_network_strength = 10, extracurricular_hours = 5,
      employment_status = ''not-employed'', financial_stress = ''none'', career_alignment = 10,
      services_used = [''tutoring''], withdrawal_considered = False, withdrawal_reasons = []\<rparr>"

text \<open>The same request with a career alignment of 9.\<close>

definition request_odd_alignment :: SimplifiedAssessmentRequest where
  "request_odd_alignment = request_calm\<lparr>career_alignment := 9\<rparr>"

text \<open>The request of the spec's scenario, on which every contribution is at its worst; it
  lists two reasons of the map and one that is not in it.\<close>

definition request_worst :: SimplifiedAssessmentRequest where
  "request_worst =
     \<lparr>consent_given = True, consent_data_processing = True, consent_anonymous_analytics = True,
      academic_year = ''1st'', attendance = ''never'', overwhelm_frequency = ''always'',
      study_hours = ''1-3'', performance_satisfaction = 0, advisor_interaction = ''never'',
      support_network_strength = 0, extracurricular_hours = 0,
      employment_status = ''full-time'', financial_stress = ''very-high'', career_alignment = 0,
      services_used = [], withdrawal_considered = True,
      withdrawal_reasons = [''Financial challenges'', ''Other'', ''Mental health'']\<rparr>"

definition sample_prediction :: model_prediction where
  "sample_prediction =
     \<lparr>pred_dropout_probability = 0.6, pred_predicted_class = Some ''Dropout'',
      pred_model_confidence = 0.6\<rparr>"

text \<open>A prediction whose probability times 100 lies halfway between 12 and 13.\<close>

definition low_prediction :: model_prediction where
  "low_prediction =
     \<lparr>pred_dropout_probability = 0.125, pred_predicted_class = Some ''Graduate'',
      pred_model_confidence = 0.875\<rparr>"

text \<open>Loaded models that answer every feature vector with the same prediction, and a
  model that is not loaded.\<close>

definition low_model :: ml_model where
  "low_model = \<lparr>is_loaded = True, predict = (\<lambda>features. Inr (Some low_prediction))\<rparr>"

definition sample_model :: ml_model where
  "sample_model = \<lparr>is_loaded = True, predict = (\<lambda>features. Inr (Some sample_prediction))\<rparr>"

definition unloaded_model :: ml_model where
  "unloaded_model = \<lparr>is_loaded = False, predict = (\<lambda>features. Inr None)\<rparr>"

text \<open>A raw request that gives every feature of \<^verbatim>\<open>FEATURE_ORDER\<close> the value 1.\<close>

definition sample_features :: "string \<rightharpoonup> real" where
  "sample_features = map_of (map (\<lambda>f. (f, 1)) FEATURE_ORDER)"

text \<open>A storage collaborator whose every save raises, on a database without state.\<close>

definition failing_save :: "unit save_prediction" where
  "failing_save db result assessment_input endpoint =
     (Inl (OtherException ''database is locked''), db)"



section \<open>Properties of the feature mapper\<close>

lemma map_form_to_ml_features_length: "length (map_form_to_ml_features d) = 8"
  by (simp add: map_form_to_ml_features_def Let_def)

lemma map_form_to_ml_features_last:
  "map_form_to_ml_features d ! 7 = real_of_int (application_mode d)"
  by (simp add: map_form_to_ml_features_def Let_def)

text \<open>
  Claim C7. The last entry of the feature vector, \<^verbatim>\<open>applicationMode\<close>, is 2 exactly when
  the employment status is \<^verbatim>\<open>full-time\<close> and the career alignment is below 5, and it is 1
  in every other case; the arm for a career alignment of 8 or more gives the same 1 as the
  default arm.
\<close>

theorem application_mode_feature:
  "length (map_form_to_ml_features d) = 8
   \<and> (map_form_to_ml_features d ! 7 = 2
        \<longleftrightarrow> employment_status d = ''full-time'' \<and> career_alignment d < 5)
   \<and> (map_form_to_ml_features d ! 7 = 1
        \<longleftrightarrow> \<not> (employment_status d = ''full-time'' \<and> career_alignment d < 5))
   \<and> (map_form_to_ml_features d ! 7 \<in> {1, 2})"
  by (simp add: map_form_to_ml_features_def Let_def application_mode_def)

section \<open>The response constructor and the entry points\<close>

lemma PredictionResponse_init_of_int:
  "PredictionResponse_init lvl (real_of_int n) prob cls factors recs conf =
     Inr \<lparr>risk_level = lvl, risk_score = n, dropout_probability = prob,
          predicted_class = cls, risk_factors = factors, recommendations = recs,
          prediction_confidence = conf\<rparr>"
  by (simp add: PredictionResponse_init_def)

lemma PredictionResponse_init_Inr:
  "PredictionResponse_init lvl score prob cls factors recs conf = Inr r \<Longrightarrow>
     risk_level r = lvl \<and> real_of_int (risk_score r) = score \<and> dropout_probability r = prob
     \<and> predicted_class r = cls \<and> risk_factors r = factors \<and> recommendations r = recs
     \<and> prediction_confidence r = conf"
  by (auto simp add: PredictionResponse_init_def split: if_splits)

lemma model_response_Inr:
  "model_response d pred =
     Inr \<lparr>risk_level = probability_risk_level (pred_dropout_probability pred),
          risk_score = py_round (pred_dropout_probability pred * 100),
          dropout_probability = pred_dropout_probability pred,
          predicted_class = pred_predicted_class pred,
          risk_factors =
            snd (model_annotations (probability_risk_level (pred_dropout_probability pred)) d),
          recommendations =
            fst (model_annotations (probability_risk_level (pred_dropout_probability pred)) d),
          prediction_confidence = pred_model_confidence pred\<rparr>"
  by (simp add: model_response_def Let_def PredictionResponse_init_of_int split: prod.split)

lemma raw_response_Inr:
  "raw_response pred =
     Inr \<lparr>risk_level = probability_risk_level (pred_dropout_probability pred),
          risk_score = py_round (pred_dropout_probability pred * 100),
          dropout_probability = pred_dropout_probability pred,
          predicted_class = pred_predicted_class pred,
          risk_factors = [],
          recommendations = [],
          prediction_confidence = pred_model_confidence pred\<rparr>"
  by (simp add: raw_response_def Let_def PredictionResponse_init_of_int)

lemma calculate_fallback_risk_Inr:
  "calculate_fallback_risk d = Inr r \<Longrightarrow>
     risk_level r = score_risk_level (fallback_risk_score d)
     \<and> real_of_int (risk_score r) = fallback_risk_score d
     \<and> dropout_probability r = fallback_risk_score d / 100
     \<and> predicted_class r = None
     \<and> risk_factors r = fallback_risk_factors d
     \<and> recommendations r = fallback_recommendations (score_risk_level (fallback_risk_score d)) d
     \<and> prediction_confidence r = 0.75"
  unfolding calculate_fallback_risk_def Let_def
  by (drule PredictionResponse_init_Inr) simp

lemma fst_save_then_return: "fst (save_then_return save db result a ep) = Inr result"
  by (simp add: save_then_return_def split: prod.split sum.split)

lemma fst_internal_failure:
  "fst (internal_failure e db) = Inl (HTTPException 500 (Prediction_failed e))"
  by (simp add: internal_failure_def)

lemma fst_fallback_path:
  "fst (fallback_path save d db) =
     (case calculate_fallback_risk d of
        Inl e \<Rightarrow> Inl (HTTPException 500 (Prediction_failed e)) | Inr result \<Rightarrow> Inr result)"
  by (simp add: fallback_path_def fst_save_then_return fst_internal_failure split: sum.split)

text \<open>What \<^verbatim>\<open>predict_simplified\<close> answers, without the save.\<close>

lemma fst_predict_simplified:
  "fst (predict_simplified ml save d db) =
     (if is_loaded ml
      then (case predict ml (map_form_to_ml_features d) of
              Inl e \<Rightarrow> Inl (HTTPException 500 (Prediction_failed e))
            | Inr (Some pred) \<Rightarrow>
                (case model_response d pred of
                   Inl e \<Rightarrow> Inl (HTTPException 500 (Prediction_failed e))
                 | Inr result \<Rightarrow> Inr result)
            | Inr None \<Rightarrow>
                (case calculate_fallback_risk d of
                   Inl e \<Rightarrow> Inl (HTTPException 500 (Prediction_failed e))
                 | Inr result \<Rightarrow> Inr result))
      else (case calculate_fallback_risk d of
              Inl e \<Rightarrow> Inl (HTTPException 500 (Prediction_failed e))
            | Inr result \<Rightarrow> Inr result))"
  by (simp add: predict_simplified_def Let_def fst_fallback_path fst_save_then_return
        fst_internal_failure split: sum.split option.split)

text \<open>What \<^verbatim>\<open>predict_raw\<close> answers, without the save.\<close>

lemma fst_predict_raw:
  "fst (predict_raw ml save features_dict db) =
     (if \<not> is_loaded ml then Inl (HTTPException 503 ML_model_not_loaded)
      else if filter (\<lambda>f. features_dict f = None) FEATURE_ORDER \<noteq> []
      then Inl (HTTPException 400
                  (Missing_feature_keys (filter (\<lambda>f. features_dict f = None) FEATURE_ORDER)))
      else (case predict ml (map (\<lambda>f. the (features_dict f)) FEATURE_ORDER) of
              Inl e \<Rightarrow> Inl (HTTPException 500 (Prediction_failed e))
            | Inr None \<Rightarrow> Inl (HTTPException 500 Model_prediction_failed)
            | Inr (Some pred) \<Rightarrow>
                (case raw_response pred of
                   Inl e \<Rightarrow> Inl (HTTPException 500 (Prediction_failed e))
                 | Inr result \<Rightarrow> Inr result)))"
  by (simp add: predict_raw_def Let_def fst_save_then_return fst_internal_failure
        split: sum.split option.split)

lemma predict_simplified_model_path:
  "is_loaded ml \<Longrightarrow> predict ml (map_form_to_ml_features d) = Inr (Some pred) \<Longrightarrow>
     \<exists>r. model_response d pred = Inr r \<and> fst (predict_simplified ml save d db) = Inr r"
  by (simp add: fst_predict_simplified model_response_Inr)

lemma predict_raw_model_path:
  "is_loaded ml \<Longrightarrow> filter (\<lambda>f. features_dict f = None) FEATURE_ORDER = [] \<Longrightarrow>
     predict ml (map (\<lambda>f. the (features_dict f)) FEATURE_ORDER) = Inr (Some pred) \<Longrightarrow>
     \<exists>r. raw_response pred = Inr r \<and> fst (predict_raw ml save features_dict db) = Inr r"
  by (simp add: fst_predict_raw raw_response_Inr)

section \<open>Persistence\<close>


text \<open>A run in which the save raises: the response is returned and the failure is logged.\<close>

lemma failing_save_is_logged:
  "save_then_return failing_save () result assessment_input endpoint =
     (Inr result, (), [Database_save_failed (OtherException ''database is locked'')])"
  by (simp add: save_then_return_def failing_save_def)

section \<open>Withdrawal reasons\<close>

lemma withdrawal_loop_append:
  "withdrawal_loop rs (recs, factors) =
     (recs @ map recommendation (List.map_filter (map_of withdrawal_reason_map) rs),
      factors @ map risk_factor (List.map_filter (map_of withdrawal_reason_map) rs))"
proof (induction rs arbitrary: recs factors)
  case Nil
  show ?case by (simp add: List.map_filter_simps)
next
  case (Cons reason rest)
  show ?case
    by (cases "map_of withdrawal_reason_map reason") (simp_all add: Cons.IH List.map_filter_simps)
qed

lemma withdrawal_reason_keys:
  "map fst withdrawal_reason_map =
     [''Academic difficulty'', ''Financial challenges'', ''Mental health'',
      ''Personal/family issues'', ''Lack of interest'', ''Career opportunities'']"
  by (simp add: withdrawal_reason_map_def)

lemma in_withdrawal_reason_map:
  "(map_of withdrawal_reason_map reason \<noteq> None) \<longleftrightarrow>
     reason \<in> set [''Academic difficulty'', ''Financial challenges'', ''Mental health'',
                    ''Personal/family issues'', ''Lack of interest'', ''Career opportunities'']"
  unfolding withdrawal_reason_keys[symmetric] by (simp add: map_of_eq_None_iff)

lemma stay_connected_fallback_nonempty: "stay_connected_fallback recs \<noteq> []"
  by (simp add: stay_connected_fallback_def)

lemma model_annotations_enriched:
  "withdrawal_considered d \<Longrightarrow> withdrawal_reasons d \<noteq> [] \<Longrightarrow>
     model_annotations lvl d =
       (stay_connected_fallback (services_rule d
          (model_rule_recommendations lvl d
             @ map recommendation (List.map_filter (map_of withdrawal_reason_map) (withdrawal_reasons d)))),
        model_risk_factors d
          @ map risk_factor (List.map_filter (map_of withdrawal_reason_map) (withdrawal_reasons d)))"
  by (simp add: model_annotations_def withdrawal_enrichment_def withdrawal_loop_append)

lemma fallback_risk_sum_ignores_reasons:
  "fallback_risk_sum (d\<lparr>withdrawal_reasons := rs\<rparr>) = fallback_risk_sum d"
  by (simp add: fallback_risk_sum_def Let_def split del: if_split cong: if_cong)

lemma fallback_risk_factors_ignores_reasons:
  "fallback_risk_factors (d\<lparr>withdrawal_reasons := rs\<rparr>) = fallback_risk_factors d"
  by (simp add: fallback_risk_factors_def Let_def split del: if_split cong: if_cong)

lemma fallback_recommendations_ignores_reasons:
  "fallback_recommendations lvl (d\<lparr>withdrawal_reasons := rs\<rparr>) = fallback_recommendations lvl d"
  by (simp add: fallback_recommendations_def fallback_rule_recommendations_def Let_def
        split del: if_split cong: if_cong)

lemma calculate_fallback_risk_ignores_reasons:
  "calculate_fallback_risk (d\<lparr>withdrawal_reasons := rs\<rparr>) = calculate_fallback_risk d"
  by (simp only: calculate_fallback_risk_def fallback_risk_score_def
        fallback_risk_sum_ignores_reasons fallback_risk_factors_ignores_reasons
        fallback_recommendations_ignores_reasons)


lemma map_filter_reasons:
  "List.map_filter (map_of withdrawal_reason_map) rs
      = map (\<lambda>reason. the (map_of withdrawal_reason_map reason))
          (filter (\<lambda>reason. reason \<in> set (map fst withdrawal_reason_map)) rs)"
  by (simp add: List.map_filter_def comp_def map_of_eq_None_iff)


lemma model_response_fields:
  assumes "model_response d pred = Inr r"
  shows "risk_level r = probability_risk_level (pred_dropout_probability pred)
     \<and> risk_score r = py_round (pred_dropout_probability pred * 100)
     \<and> dropout_probability r = pred_dropout_probability pred
     \<and> predicted_class r = pred_predicted_class pred
     \<and> risk_factors r = snd (model_annotations (risk_level r) d)
     \<and> recommendations r = fst (model_annotations (risk_level r) d)
     \<and> prediction_confidence r = pred_model_confidence pred"
proof -
  from assms have "r = \<lparr>risk_level = probability_risk_level (pred_dropout_probability pred),
          risk_score = py_round (pred_dropout_probability pred * 100),
          dropout_probability = pred_dropout_probability pred,
          predicted_class = pred_predicted_class pred,
          risk_factors =
            snd (model_annotations (probability_risk_level (pred_dropout_probability pred)) d),
          recommendations =
            fst (model_annotations (probability_risk_level (pred_dropout_probability pred)) d),
          prediction_confidence = pred_model_confidence pred\<rparr>"
    by (simp only: model_response_Inr sum.inject)
  then show ?thesis by simp
qed


text \<open>
  Claim C5. On the model path of \<^verbatim>\<open>predict_simplified\<close>, when withdrawal was considered and
  the list of reasons is not empty, the response carries, after the risk factors of the
  rules, the mapped risk factor of every listed reason that is a key of the map, in the
  order listed, and its recommendations are those of the rules followed by the mapped
  recommendations in the same order, then by what the services rule and the test for an
  empty list add. The map has the six keys named. The heuristic function does not read
  the reasons: its result is the same whatever the list is.
\<close>

theorem withdrawal_reason_enrichment:
  assumes "is_loaded ml" and "predict ml (map_form_to_ml_features d) = Inr (Some pred)"
    and "withdrawal_considered d" and "withdrawal_reasons d \<noteq> []"
  shows "\<exists>r. fst (predict_simplified ml save d db) = Inr r
     \<and> risk_level r = probability_risk_level (pred_dropout_probability pred)
     \<and> (let listed = filter (\<lambda>reason. reason \<in> set (map fst withdrawal_reason_map))
                        (withdrawal_reasons d);
             entries = map (\<lambda>reason. the (map_of withdrawal_reason_map reason)) listed
         in recommendations r =
              stay_connected_fallback (services_rule d
                (model_rule_recommendations (risk_level r) d @ map recommendation entries))
            \<and> risk_factors r = model_risk_factors d @ map risk_factor entries)
     \<and> map fst withdrawal_reason_map =
          [''Academic difficulty'', ''Financial challenges'', ''Mental health'',
           ''Personal/family issues'', ''Lack of interest'', ''Career opportunities'']
     \<and> calculate_fallback_risk (d\<lparr>withdrawal_reasons := rs\<rparr>) = calculate_fallback_risk d"
proof -
  from predict_simplified_model_path[OF assms(1,2), of save db]
  obtain r where r: "model_response d pred = Inr r"
    and res: "fst (predict_simplified ml save d db) = Inr r" by (elim exE conjE)
  note ann = model_annotations_enriched[OF assms(3,4), of "risk_level r"]
  from model_response_fields[OF r]
  have recs: "recommendations r = fst (model_annotations (risk_level r) d)" by blast
  from model_response_fields[OF r]
  have facs: "risk_factors r = snd (model_annotations (risk_level r) d)" by blast
  from model_response_fields[OF r]
  have lvl: "risk_level r = probability_risk_level (pred_dropout_probability pred)" by blast
  have enriched:
    "let listed = filter (\<lambda>reason. reason \<in> set (map fst withdrawal_reason_map))
                        (withdrawal_reasons d);
             entries = map (\<lambda>reason. the (map_of withdrawal_reason_map reason)) listed
         in recommendations r =
              stay_connected_fallback (services_rule d
                (model_rule_recommendations (risk_level r) d @ map recommendation entries))
            \<and> risk_factors r = model_risk_factors d @ map risk_factor entries"
    unfolding Let_def map_filter_reasons[symmetric] recs facs ann
    by (simp only: fst_conv snd_conv simp_thms)
  show ?thesis
    by (rule exI[of _ r], intro conjI)
       (fact res, fact lvl, fact enriched, fact withdrawal_reason_keys,
        fact calculate_fallback_risk_ignores_reasons)
qed


lemma request_worst_listed:
  "filter (\<lambda>reason. reason \<in> set (map fst withdrawal_reason_map))
     (withdrawal_reasons request_worst) = [''Financial challenges'', ''Mental health'']"
  by (simp add: withdrawal_reason_keys request_worst_def)

lemma request_worst_entry_titles:
  "rec_title (recommendation (the (map_of withdrawal_reason_map ''Financial challenges'')))
     = ''Emergency Financial Assistance''"
  "rec_title (recommendation (the (map_of withdrawal_reason_map ''Mental health'')))
     = ''Mental Health Crisis Support''"
  "factor (risk_factor (the (map_of withdrawal_reason_map ''Financial challenges'')))
     = ''Financial Crisis''"
  "factor (risk_factor (the (map_of withdrawal_reason_map ''Mental health'')))
     = ''Mental Health Crisis''"
  by (simp_all add: withdrawal_reason_map_def)

theorem withdrawal_reason_enrichment_witness:
  "is_loaded sample_model
   \<and> predict sample_model (map_form_to_ml_features request_worst) = Inr (Some sample_prediction)
   \<and> withdrawal_considered request_worst
   \<and> withdrawal_reasons request_worst = [''Financial challenges'', ''Other'', ''Mental health'']
   \<and> (\<exists>r. fst (predict_simplified sample_model failing_save request_worst ()) = Inr r
          \<and> map rec_title (recommendations r) =
               [''Mental Health Support'', ''Financial Aid Office'', ''Academic Tutoring'',
                ''Schedule Advisor Meeting'', ''Time Management Support'',
                ''Emergency Financial Assistance'', ''Mental Health Crisis Support'',
                ''Explore Campus Support Services'']
          \<and> map factor (risk_factors r) =
               [''Low Class Attendance'', ''Academic Overwhelm'', ''Financial Stress'',
                ''Withdrawal Consideration'', ''Weak Support Network'', ''Full-time Employment'',
                ''Financial Crisis'', ''Mental Health Crisis''])"
proof -
  have h1: "is_loaded sample_model" by (simp add: sample_model_def)
  have h2: "predict sample_model (map_form_to_ml_features request_worst)
              = Inr (Some sample_prediction)"
    by (simp add: sample_model_def)
  have h3: "withdrawal_considered request_worst" by (simp add: request_worst_def)
  have h4: "withdrawal_reasons request_worst = [''Financial challenges'', ''Other'', ''Mental health'']"
    by (simp add: request_worst_def)
  have h4': "withdrawal_reasons request_worst \<noteq> []" by (simp add: h4)
  have lvl: "probability_risk_level (pred_dropout_probability sample_prediction) = ''high''"
    by (simp add: probability_risk_level_def sample_prediction_def)
  have rules: "map rec_title (model_rule_recommendations ''high'' request_worst) =
      [''Mental Health Support'', ''Financial Aid Office'', ''Academic Tutoring'',
       ''Schedule Advisor Meeting'', ''Time Management Support'']"
    by (simp add: model_rule_recommendations_def request_worst_def Let_def
          rec_mental_health_support_def rec_financial_aid_office_def rec_academic_tutoring_def
          rec_schedule_advisor_meeting_def rec_time_management_support_def)
  have factors: "map factor (model_risk_factors request_worst) =
      [''Low Class Attendance'', ''Academic Overwhelm'', ''Financial Stress'',
       ''Withdrawal Consideration'', ''Weak Support Network'', ''Full-time Employment'']"
    by (simp add: model_risk_factors_def request_worst_def Let_def
          rf_low_class_attendance_def rf_academic_overwhelm_def rf_financial_stress_def
          rf_withdrawal_consideration_def rf_weak_support_network_def
          rf_full_time_employment_def)
  have services: "services_used request_worst = []" by (simp add: request_worst_def)
  have explore: "rec_title rec_explore_campus_support = ''Explore Campus Support Services''"
    by (simp add: rec_explore_campus_support_def)
  note enrich = withdrawal_reason_enrichment[OF h1 h2 h3 h4', of failing_save "()" "[]",
      unfolded Let_def request_worst_listed lvl]
  from enrich obtain r where res: "fst (predict_simplified sample_model failing_save request_worst ()) = Inr r"
    and rl: "risk_level r = ''high''"
    and recs: "recommendations r =
              stay_connected_fallback (services_rule request_worst
                (model_rule_recommendations (risk_level r) request_worst
                   @ map recommendation (map (\<lambda>reason. the (map_of withdrawal_reason_map reason))
                       [''Financial challenges'', ''Mental health''])))"
    and facs: "risk_factors r = model_risk_factors request_worst
                 @ map risk_factor (map (\<lambda>reason. the (map_of withdrawal_reason_map reason))
                       [''Financial challenges'', ''Mental health''])"
    by (elim exE conjE) (rule that; assumption)
  have titles: "map rec_title (recommendations r) =
               [''Mental Health Support'', ''Financial Aid Office'', ''Academic Tutoring'',
                ''Schedule Advisor Meeting'', ''Time Management Support'',
                ''Emergency Financial Assistance'', ''Mental Health Crisis Support'',
                ''Explore Campus Support Services'']"
    unfolding recs rl
    by (simp add: stay_connected_fallback_def services_rule_def services rules explore
          request_worst_entry_titles)
  have names: "map factor (risk_factors r) =
               [''Low Class Attendance'', ''Academic Overwhelm'', ''Financial Stress'',
                ''Withdrawal Consideration'', ''Weak Support Network'', ''Full-time Employment'',
                ''Financial Crisis'', ''Mental Health Crisis'']"
    unfolding facs by (simp add: factors request_worst_entry_titles)
  show ?thesis
    by (intro conjI exI[of _ r]) (fact h1 h2 h3 h4 res titles names)+
qed

section \<open>The heuristic score and its response\<close>

lemma fallback_risk_score_bounds: "0 \<le> fallback_risk_score d \<and> fallback_risk_score d \<le> 100"
  by (simp add: fallback_risk_score_def)

lemma worst_case_sum:
  assumes "attendance d = ''never''" and "overwhelm_frequency d = ''always''"
    and "financial_stress d = ''very-high''" and "withdrawal_considered d"
    and "performance_satisfaction d = 0" and "advisor_interaction d = ''never''"
    and "support_network_strength d = 0"
    and "extracurricular_hours d < 1 \<or> 15 < extracurricular_hours d"
    and "career_alignment d = 0" and "employment_status d = ''full-time''"
  shows "fallback_risk_sum d = 175"
  using assms(8)
  by (simp add: fallback_risk_sum_def Let_def dict_get_def attendance_scores_def
        overwhelm_scores_def financial_scores_def advisor_scores_def assms(1-7) assms(9,10))

lemma worst_case_response:
  assumes "attendance d = ''never''" and "overwhelm_frequency d = ''always''"
    and "financial_stress d = ''very-high''" and "withdrawal_considered d"
    and "performance_satisfaction d = 0" and "advisor_interaction d = ''never''"
    and "support_network_strength d = 0"
    and "extracurricular_hours d < 1 \<or> 15 < extracurricular_hours d"
    and "career_alignment d = 0" and "employment_status d = ''full-time''"
  shows "calculate_fallback_risk d =
     Inr \<lparr>risk_level = ''high'', risk_score = 100, dropout_probability = 1,
          predicted_class = None, risk_factors = fallback_risk_factors d,
          recommendations = fallback_recommendations ''high'' d,
          prediction_confidence = 0.75\<rparr>"
proof -
  have "fallback_risk_score d = 100"
    by (simp add: fallback_risk_score_def worst_case_sum[OF assms])
  then show ?thesis
    by (simp add: calculate_fallback_risk_def Let_def score_risk_level_def
          PredictionResponse_init_def)
qed

lemma request_worst_response:
  "calculate_fallback_risk request_worst =
     Inr \<lparr>risk_level = ''high'', risk_score = 100, dropout_probability = 1,
          predicted_class = None, risk_factors = fallback_risk_factors request_worst,
          recommendations = fallback_recommendations ''high'' request_worst,
          prediction_confidence = 0.75\<rparr>"
  by (rule worst_case_response) (simp_all add: request_worst_def)

lemma request_odd_alignment_score: "fallback_risk_score request_odd_alignment = 3/2"
  by (simp add: fallback_risk_score_def fallback_risk_sum_def Let_def dict_get_def
        attendance_scores_def overwhelm_scores_def financial_scores_def advisor_scores_def
        request_odd_alignment_def request_calm_def)

lemma floor_three_halves: "\<lfloor>3/2 :: real\<rfloor> = 1"
  by linarith

text \<open>
  Claim C3. The normalised score lies between 0 and 100 (\<open>fallback_risk_score_bounds\<close>) and
  is 100 with tier \<^verbatim>\<open>high\<close> when every contribution is at its worst
  (\<open>worst_case_response\<close>), but it is not always an integer: for the calm request with a
  career alignment of 9 the only contribution is \<^verbatim>\<open>1 * 1.5\<close>, the score is 1.5, the
  response constructor rejects it for its integer field, and the entry point answers with
  status 500.
\<close>

theorem fallback_score_not_integral:
  "fallback_risk_score request_odd_alignment = 3/2
   \<and> calculate_fallback_risk request_odd_alignment = Inl ValidationError
   \<and> fst (predict_simplified unloaded_model failing_save request_odd_alignment ())
       = Inl (HTTPException 500 (Prediction_failed ValidationError))"
proof -
  have c: "calculate_fallback_risk request_odd_alignment = Inl ValidationError"
    by (simp add: calculate_fallback_risk_def Let_def request_odd_alignment_score
          PredictionResponse_init_def floor_three_halves del: of_int_floor_cancel)
  have "fst (predict_simplified unloaded_model failing_save request_odd_alignment ())
       = Inl (HTTPException 500 (Prediction_failed ValidationError))"
    by (simp add: fst_predict_simplified c unloaded_model_def)
  with c request_odd_alignment_score show ?thesis by simp
qed

text \<open>
  Claim C9. A response that the heuristic function returns has confidence 0.75 and no
  predicted class, its score is the normalised sum, and its dropout probability is that
  score divided by 100; the same holds for what \<^verbatim>\<open>predict_simplified\<close> returns when the
  model is not loaded.
\<close>

theorem fallback_response_fields:
  "(calculate_fallback_risk d = Inr r \<longrightarrow>
      prediction_confidence r = 0.75 \<and> predicted_class r = None
      \<and> real_of_int (risk_score r) = min 100 (max 0 (fallback_risk_sum d))
      \<and> dropout_probability r = real_of_int (risk_score r) / 100)
   \<and> (\<not> is_loaded ml \<and> fst (predict_simplified ml save d db) = Inr r \<longrightarrow>
      prediction_confidence r = 0.75 \<and> predicted_class r = None
      \<and> real_of_int (risk_score r) = min 100 (max 0 (fallback_risk_sum d))
      \<and> dropout_probability r = real_of_int (risk_score r) / 100)"
proof -
  have a: "prediction_confidence r = 0.75 \<and> predicted_class r = None
      \<and> real_of_int (risk_score r) = min 100 (max 0 (fallback_risk_sum d))
      \<and> dropout_probability r = real_of_int (risk_score r) / 100"
    if "calculate_fallback_risk d = Inr r" for r
    using calculate_fallback_risk_Inr[OF that] by (simp add: fallback_risk_score_def)
  have b: "calculate_fallback_risk d = Inr r"
    if "\<not> is_loaded ml" and "fst (predict_simplified ml save d db) = Inr r"
    using that by (simp add: fst_predict_simplified split: sum.splits)
  from a b show ?thesis by blast
qed

theorem fallback_response_fields_witness:
  "\<exists>r. calculate_fallback_risk request_worst = Inr r
       \<and> fst (predict_simplified unloaded_model failing_save request_worst ()) = Inr r
       \<and> prediction_confidence r = 0.75 \<and> predicted_class r = None
       \<and> risk_score r = 100 \<and> dropout_probability r = 1"
proof -
  define r where "r = \<lparr>risk_level = ''high'', risk_score = 100, dropout_probability = 1,
          predicted_class = None, risk_factors = fallback_risk_factors request_worst,
          recommendations = fallback_recommendations ''high'' request_worst,
          prediction_confidence = 0.75\<rparr>"
  have h: "calculate_fallback_risk request_worst = Inr r"
    unfolding r_def by (rule request_worst_response)
  have u: "\<not> is_loaded unloaded_model" by (simp add: unloaded_model_def)
  have p: "fst (predict_simplified unloaded_model failing_save request_worst ()) = Inr r"
    by (simp add: fst_predict_simplified u h)
  from fallback_response_fields[of request_worst r unloaded_model failing_save "()"] h u p
  have "prediction_confidence r = 0.75 \<and> predicted_class r = None
      \<and> dropout_probability r = real_of_int (risk_score r) / 100" by blast
  moreover have "risk_score r = 100" by (simp add: r_def)
  ultimately show ?thesis using h p by (intro exI[of _ r]) simp
qed

section \<open>The score of the model path\<close>

lemma predict_raw_Inr:
  assumes "fst (predict_raw ml save features_dict db) = Inr r"
  shows "\<exists>pred. raw_response pred = Inr r"
  using assms
  by (auto simp add: fst_predict_raw split: if_splits sum.splits option.splits)

lemma raw_response_fields:
  assumes "raw_response pred = Inr r"
  shows "risk_level r = probability_risk_level (pred_dropout_probability pred)
     \<and> risk_score r = py_round (pred_dropout_probability pred * 100)
     \<and> dropout_probability r = pred_dropout_probability pred
     \<and> predicted_class r = pred_predicted_class pred
     \<and> risk_factors r = [] \<and> recommendations r = []
     \<and> prediction_confidence r = pred_model_confidence pred"
proof -
  from assms have "r = \<lparr>risk_level = probability_risk_level (pred_dropout_probability pred),
          risk_score = py_round (pred_dropout_probability pred * 100),
          dropout_probability = pred_dropout_probability pred,
          predicted_class = pred_predicted_class pred,
          risk_factors = [], recommendations = [],
          prediction_confidence = pred_model_confidence pred\<rparr>"
    by (simp only: raw_response_Inr sum.inject)
  then show ?thesis by simp
qed


lemma sample_features_complete:
  "filter (\<lambda>f. sample_features f = None) FEATURE_ORDER = []"
  by (simp add: sample_features_def FEATURE_ORDER_def)



section \<open>Tiers and the fallback recommendation\<close>

lemma predict_simplified_Inr:
  assumes "fst (predict_simplified ml save d db) = Inr r"
  shows "(\<exists>pred. is_loaded ml \<and> predict ml (map_form_to_ml_features d) = Inr (Some pred)
            \<and> model_response d pred = Inr r)
         \<or> calculate_fallback_risk d = Inr r"
  using assms
  by (auto simp add: fst_predict_simplified split: if_splits sum.splits option.splits)

lemma probability_tiers:
  "(probability_risk_level p = ''high'' \<longleftrightarrow> 0.6 \<le> p)
   \<and> (probability_risk_level p = ''medium'' \<longleftrightarrow> 0.35 \<le> p \<and> p < 0.6)
   \<and> (probability_risk_level p = ''low'' \<longleftrightarrow> p < 0.35)"
  by (auto simp add: probability_risk_level_def)

lemma score_tiers:
  "(score_risk_level s = ''high'' \<longleftrightarrow> 60 \<le> s)
   \<and> (score_risk_level s = ''medium'' \<longleftrightarrow> 35 \<le> s \<and> s < 60)
   \<and> (score_risk_level s = ''low'' \<longleftrightarrow> s < 35)"
  by (auto simp add: score_risk_level_def)

text \<open>
  Claim C1. The tier of a probability \<open>p\<close> is \<^verbatim>\<open>high\<close> exactly when \<open>p\<close> is at least 0.6,
  \<^verbatim>\<open>medium\<close> exactly when \<open>p\<close> is at least 0.35 and below 0.6, and \<^verbatim>\<open>low\<close> exactly when
  \<open>p\<close> is below 0.35, so every probability has one tier and only one; the tier of a
  heuristic score follows the same pattern with the bounds 60 and 35. The responses of the
  model path of \<^verbatim>\<open>predict_simplified\<close> and of \<^verbatim>\<open>predict_raw\<close> carry the tier of the
  probability, and a response of the heuristic function carries the tier of its score.
\<close>

theorem risk_tier_partition:
  "(probability_risk_level p = ''high'' \<longleftrightarrow> 0.6 \<le> p)
   \<and> (probability_risk_level p = ''medium'' \<longleftrightarrow> 0.35 \<le> p \<and> p < 0.6)
   \<and> (probability_risk_level p = ''low'' \<longleftrightarrow> p < 0.35)
   \<and> (score_risk_level s = ''high'' \<longleftrightarrow> 60 \<le> s)
   \<and> (score_risk_level s = ''medium'' \<longleftrightarrow> 35 \<le> s \<and> s < 60)
   \<and> (score_risk_level s = ''low'' \<longleftrightarrow> s < 35)
   \<and> (is_loaded ml \<and> predict ml (map_form_to_ml_features d) = Inr (Some pred) \<longrightarrow>
        (\<exists>r. fst (predict_simplified ml save d db) = Inr r
             \<and> risk_level r = probability_risk_level (pred_dropout_probability pred)))
   \<and> (fst (predict_raw ml save features_dict db) = Inr r' \<longrightarrow>
        risk_level r' = probability_risk_level (dropout_probability r'))
   \<and> (calculate_fallback_risk d = Inr r'' \<longrightarrow>
        risk_level r'' = score_risk_level (real_of_int (risk_score r'')))"
proof -
  have a: "\<exists>r. fst (predict_simplified ml save d db) = Inr r
             \<and> risk_level r = probability_risk_level (pred_dropout_probability pred)"
    if "is_loaded ml \<and> predict ml (map_form_to_ml_features d) = Inr (Some pred)"
  proof -
    from that predict_simplified_model_path[of ml d pred save db]
    obtain r where "model_response d pred = Inr r"
      and "fst (predict_simplified ml save d db) = Inr r" by (elim exE conjE) blast
    with model_response_fields[of d pred r] show ?thesis by (intro exI[of _ r]) simp
  qed
  have b: "risk_level r' = probability_risk_level (dropout_probability r')"
    if "fst (predict_raw ml save features_dict db) = Inr r'"
  proof -
    from predict_raw_Inr[OF that] obtain pred' where "raw_response pred' = Inr r'"
      by (elim exE)
    from raw_response_fields[OF this] show ?thesis by simp
  qed
  have c: "risk_level r'' = score_risk_level (real_of_int (risk_score r''))"
    if "calculate_fallback_risk d = Inr r''"
    using calculate_fallback_risk_Inr[OF that] by simp
  from probability_tiers[of p] score_tiers[of s] a b c show ?thesis by blast
qed


theorem risk_tier_partition_witness:
  "probability_risk_level 0.6 = ''high'' \<and> score_risk_level 100 = ''high''
   \<and> is_loaded sample_model
   \<and> predict sample_model (map_form_to_ml_features request_worst) = Inr (Some sample_prediction)
   \<and> (\<exists>r. fst (predict_simplified sample_model failing_save request_worst ()) = Inr r
          \<and> risk_level r = ''high'')
   \<and> (\<exists>r. fst (predict_raw sample_model failing_save sample_features ()) = Inr r
          \<and> dropout_probability r = 0.6 \<and> risk_level r = ''high'')
   \<and> (\<exists>r. calculate_fallback_risk request_worst = Inr r
          \<and> risk_score r = 100 \<and> risk_level r = ''high'')"
proof -
  have h1: "is_loaded sample_model" by (simp add: sample_model_def)
  have h2: "predict sample_model (map_form_to_ml_features request_worst)
              = Inr (Some sample_prediction)"
    by (simp add: sample_model_def)
  have h4: "predict sample_model (map (\<lambda>f. the (sample_features f)) FEATURE_ORDER)
        = Inr (Some sample_prediction)"
    by (simp add: sample_model_def)
  have p: "pred_dropout_probability sample_prediction = 0.6"
    by (simp add: sample_prediction_def)
  from predict_raw_model_path[OF h1 sample_features_complete h4, of failing_save "()"]
  obtain r' where raw: "raw_response sample_prediction = Inr r'"
    and res': "fst (predict_raw sample_model failing_save sample_features ()) = Inr r'"
    by (elim exE conjE)
  from raw_response_fields[OF raw] p have p': "dropout_probability r' = 0.6" by simp
  define r'' where "r'' = \<lparr>risk_level = ''high'', risk_score = 100, dropout_probability = 1,
          predicted_class = None, risk_factors = fallback_risk_factors request_worst,
          recommendations = fallback_recommendations ''high'' request_worst,
          prediction_confidence = 0.75\<rparr>"
  have res'': "calculate_fallback_risk request_worst = Inr r''"
    unfolding r''_def by (rule request_worst_response)
  have sc: "risk_score r'' = 100" by (simp add: r''_def)
  note inst = risk_tier_partition[of "0.6" 100 sample_model request_worst sample_prediction
      failing_save "()" sample_features r' r'', unfolded p p' sc]
  from inst have t1: "probability_risk_level 0.6 = ''high''" by simp
  from inst have t2: "score_risk_level 100 = ''high''" by simp
  from inst h1 h2
  have "\<exists>r. fst (predict_simplified sample_model failing_save request_worst ()) = Inr r
          \<and> risk_level r = probability_risk_level 0.6" by (elim conjE) simp
  then have a: "\<exists>r. fst (predict_simplified sample_model failing_save request_worst ()) = Inr r
          \<and> risk_level r = ''high''" by (simp only: t1)
  from inst res' t1 have "risk_level r' = ''high''" by simp
  with res' p'
  have b: "\<exists>r. fst (predict_raw sample_model failing_save sample_features ()) = Inr r
          \<and> dropout_probability r = 0.6 \<and> risk_level r = ''high''"
    by (intro exI[of _ r']) simp
  from inst res'' t2 have "risk_level r'' = ''high''" by simp
  with res'' sc
  have c: "\<exists>r. calculate_fallback_risk request_worst = Inr r
          \<and> risk_score r = 100 \<and> risk_level r = ''high''"
    by (intro exI[of _ r'']) simp
  show ?thesis by (intro conjI) (fact t1 t2 h1 h2 a b c)+
qed

text \<open>
  Claim C6. No response of \<^verbatim>\<open>predict_simplified\<close> has an empty list of recommendations.
  On the heuristic path and on the model path the list is what the rules produced, and
  when they produced nothing it is the single recommendation \<^verbatim>\<open>Stay Connected\<close>, whose
  urgency is \<^verbatim>\<open>when-needed\<close>.
\<close>

theorem recommendations_never_empty:
  "(fst (predict_simplified ml save d db) = Inr r \<longrightarrow> recommendations r \<noteq> [])
   \<and> (calculate_fallback_risk d = Inr r \<longrightarrow>
        recommendations r =
          (let fired = fallback_rule_recommendations (risk_level r) d
           in if fired = [] then [rec_stay_connected] else fired))
   \<and> (is_loaded ml \<and> predict ml (map_form_to_ml_features d) = Inr (Some pred)
        \<and> fst (predict_simplified ml save d db) = Inr r \<longrightarrow>
        recommendations r =
          (let fired = services_rule d (fst (withdrawal_enrichment d
                         (model_rule_recommendations (risk_level r) d, model_risk_factors d)))
           in if fired = [] then [rec_stay_connected] else fired))
   \<and> rec_title rec_stay_connected = ''Stay Connected''
   \<and> rec_urgency rec_stay_connected = ''when-needed''"
proof -
  have fb: "recommendations r =
          (let fired = fallback_rule_recommendations (risk_level r) d
           in if fired = [] then [rec_stay_connected] else fired)"
    if "calculate_fallback_risk d = Inr r" for r
    using calculate_fallback_risk_Inr[OF that]
    by (simp add: fallback_recommendations_def stay_connected_fallback_def Let_def)
  have mo: "recommendations r =
          (let fired = services_rule d (fst (withdrawal_enrichment d
                         (model_rule_recommendations (risk_level r) d, model_risk_factors d)))
           in if fired = [] then [rec_stay_connected] else fired)"
    if "model_response d pred = Inr r" for r pred
    using model_response_fields[OF that]
    by (simp add: model_annotations_def stay_connected_fallback_def Let_def split: prod.split)
  have fired_nonempty:
    "(let fired = X in if fired = [] then [rec_stay_connected] else fired) \<noteq> []" for X
    by (simp add: Let_def)
  have ne: "recommendations r \<noteq> []"
    if "fst (predict_simplified ml save d db) = Inr r"
  proof -
    from predict_simplified_Inr[OF that]
    consider pred' where "model_response d pred' = Inr r" | "calculate_fallback_risk d = Inr r"
      by blast
    then show ?thesis
    proof cases
      case 1
      show ?thesis unfolding mo[OF 1] by (rule fired_nonempty)
    next
      case 2
      show ?thesis unfolding fb[OF 2] by (rule fired_nonempty)
    qed
  qed
  have mp: "recommendations r =
          (let fired = services_rule d (fst (withdrawal_enrichment d
                         (model_rule_recommendations (risk_level r) d, model_risk_factors d)))
           in if fired = [] then [rec_stay_connected] else fired)"
    if "is_loaded ml \<and> predict ml (map_form_to_ml_features d) = Inr (Some pred)
        \<and> fst (predict_simplified ml save d db) = Inr r"
  proof -
    from that predict_simplified_model_path[of ml d pred save db]
    have "model_response d pred = Inr r" by auto
    then show ?thesis by (rule mo)
  qed
  have t: "rec_title rec_stay_connected = ''Stay Connected''"
    and u: "rec_urgency rec_stay_connected = ''when-needed''"
    by (simp_all add: rec_stay_connected_def)
  show ?thesis
    by (intro conjI impI) (erule ne, erule fb, erule mp, rule t, rule u)
qed


lemma request_calm_score: "fallback_risk_score request_calm = 0"
  by (simp add: fallback_risk_score_def fallback_risk_sum_def Let_def dict_get_def
        attendance_scores_def overwhelm_scores_def financial_scores_def advisor_scores_def
        request_calm_def)

lemma request_calm_response:
  "calculate_fallback_risk request_calm =
     Inr \<lparr>risk_level = ''low'', risk_score = 0, dropout_probability = 0,
          predicted_class = None, risk_factors = fallback_risk_factors request_calm,
          recommendations = fallback_recommendations ''low'' request_calm,
          prediction_confidence = 0.75\<rparr>"
  by (simp add: calculate_fallback_risk_def Let_def request_calm_score score_risk_level_def
        PredictionResponse_init_def)

lemma request_calm_no_rule:
  "fallback_rule_recommendations ''low'' request_calm = []"
  "services_rule request_calm (fst (withdrawal_enrichment request_calm
     (model_rule_recommendations ''low'' request_calm, model_risk_factors request_calm))) = []"
  by (simp_all add: fallback_rule_recommendations_def services_rule_def
        withdrawal_enrichment_def model_rule_recommendations_def Let_def request_calm_def)

theorem recommendations_never_empty_witness:
  "(\<exists>r. calculate_fallback_risk request_calm = Inr r
        \<and> fst (predict_simplified unloaded_model failing_save request_calm ()) = Inr r
        \<and> recommendations r = [rec_stay_connected])
   \<and> is_loaded low_model
   \<and> predict low_model (map_form_to_ml_features request_calm) = Inr (Some low_prediction)
   \<and> (\<exists>r. fst (predict_simplified low_model failing_save request_calm ()) = Inr r
          \<and> recommendations r = [rec_stay_connected])
   \<and> rec_urgency rec_stay_connected = ''when-needed''"
proof -
  define rc where "rc = \<lparr>risk_level = ''low'', risk_score = 0, dropout_probability = 0,
          predicted_class = None, risk_factors = fallback_risk_factors request_calm,
          recommendations = fallback_recommendations ''low'' request_calm,
          prediction_confidence = 0.75\<rparr>"
  have hc: "calculate_fallback_risk request_calm = Inr rc"
    unfolding rc_def by (rule request_calm_response)
  have lc: "risk_level rc = ''low''" by (simp add: rc_def)
  have u: "\<not> is_loaded unloaded_model" by (simp add: unloaded_model_def)
  have pc: "fst (predict_simplified unloaded_model failing_save request_calm ()) = Inr rc"
    by (simp add: fst_predict_simplified u hc)
  note heuristic = recommendations_never_empty[of unloaded_model failing_save request_calm
      "()" rc low_prediction, unfolded lc request_calm_no_rule Let_def]
  from heuristic hc have a0: "recommendations rc = [rec_stay_connected]" by simp
  from heuristic have urgency: "rec_urgency rec_stay_connected = ''when-needed''" by simp
  have a: "\<exists>r. calculate_fallback_risk request_calm = Inr r
        \<and> fst (predict_simplified unloaded_model failing_save request_calm ()) = Inr r
        \<and> recommendations r = [rec_stay_connected]"
    by (intro exI[of _ rc] conjI) (fact hc pc a0)+
  have h1: "is_loaded low_model" by (simp add: low_model_def)
  have h2: "predict low_model (map_form_to_ml_features request_calm) = Inr (Some low_prediction)"
    by (simp add: low_model_def)
  from predict_simplified_model_path[OF h1 h2, of failing_save "()"]
  obtain r where mr: "model_response request_calm low_prediction = Inr r"
    and res: "fst (predict_simplified low_model failing_save request_calm ()) = Inr r"
    by (elim exE conjE)
  from model_response_fields[OF mr]
  have lr: "risk_level r = ''low''"
    by (simp add: low_prediction_def probability_risk_level_def)
  note model = recommendations_never_empty[of low_model failing_save request_calm
      "()" r low_prediction, unfolded lr request_calm_no_rule Let_def]
  from model h1 h2 res have b0: "recommendations r = [rec_stay_connected]" by simp
  have b: "\<exists>r. fst (predict_simplified low_model failing_save request_calm ()) = Inr r
          \<and> recommendations r = [rec_stay_connected]"
    by (intro exI[of _ r] conjI) (fact res b0)+
  show ?thesis by (intro conjI) (fact a h1 h2 b urgency)+
qed

section \<open>Percentages of the top risk factors\<close>






















section \<open>Dashboard statistics on an empty store\<close>

text \<open>
  Claim C8. On a store without predictions the statistics are all 0: the total, the three
  counts, the three percentages and the average score. The function is total, so it
  returns them and raises nothing.
\<close>

theorem dashboard_stats_empty:
  "get_dashboard_stats (db\<lparr>tbl_predictions := []\<rparr>) =
     \<lparr>total_assessments = 0, high_risk_count = 0, medium_risk_count = 0, low_risk_count = 0,
      high_risk_percentage = 0, medium_risk_percentage = 0, low_risk_percentage = 0,
      average_risk_score = 0\<rparr>"
  by (simp add: get_dashboard_stats_def dashboard_query_def sql_count_def sql_sum_def
        sql_avg_def or_zero_def py_round_n_def py_round_def Let_def)

end
